theory Spec2Isabelle
  imports Main "HOL-Library.Multiset" "HOL-Library.Word" "HOL-Library.Char_ord" "HOL-Library.List_Lexorder"
begin

section \<open>Go values shared by the two providers\<close>

text \<open>
  A Go function of the providers returns an \<open>error\<close> that is nil or not; a run can also end
  in a panic (a nil pointer dereferenced, an index out of range, a failed type assertion). Errors raised by code
  outside the repository (the Azure SDK, the Pureport SDK, Terraform's schema package) are
  opaque; the errors the repository builds itself with \<open>fmt.Errorf\<close> get one constructor
  per call site, wrapping the error they format.
\<close>

datatype panic = NilPointerDereference | IndexOutOfRange | InterfaceConversion

datatype error =
    External string
  | ErrCheckingPresence error
  | ImportAsExistsError string string
  | ErrExtractingVnetNames error
  | ErrCreatingUpdating error
  | ErrWaitingForCreation error
  | ErrRetrievingPlan error
  | ErrCannotReadPlanID
  | ErrMakingReadRequest error
  | ErrSettingVirtualNetworkIds error
  | ErrDeletingPlan error
  | ErrWaitingForDeletion error
  | ErrRetrievingKeys error
  | ErrNilKeyReturned
  | ErrNoKeysReturned
  | ErrFirstKeyNil
  | ErrReadingConnection error
  | ErrResponseReadingConnection int

datatype exit = Return "error option" | Panicked panic

definition deref :: "'a option \<Rightarrow> panic + 'a" where
  "deref p = (case p of None \<Rightarrow> Inl NilPointerDereference | Some v \<Rightarrow> Inr v)"

text \<open>Reading a Go \<open>map[string]string\<close> at a missing key gives the empty string.\<close>

definition map_index :: "(string \<rightharpoonup> string) \<Rightarrow> string \<Rightarrow> string" where
  "map_index m k = (case m k of None \<Rightarrow> [] | Some v \<Rightarrow> v)"

text \<open>
  Modelled from the spec: \<open>utils.ResponseWasNotFound\<close> is called by the sources but its file
  is not among them. An \<open>autorest.Response\<close> is modelled by the status code of the HTTP
  response it embeds (\<open>None\<close> when there is no HTTP response), and the helper holds exactly
  for a 404, which is what the comment in \<open>getKeyForStorageAccount\<close> says it catches.
\<close>

type_synonym autorest_Response = "int option"

definition ResponseWasNotFound :: "autorest_Response \<Rightarrow> bool" where
  "ResponseWasNotFound resp = (resp = Some 404)"

section \<open>pureport: the provider\<close>

text \<open>The provider's configuration, with the five settings of the schema in \<open>Provider\<close>.\<close>

record ProviderData =
  access_key :: string
  secret_key :: string
  profile :: string
  token :: string
  max_retries :: int

text \<open>
  The Pureport SDK is outside the repository: a configuration type \<open>'cfg\<close> and a session
  type \<open>'sess\<close> with the three functions \<open>providerConfigure\<close> calls on them.
\<close>

record ('cfg, 'sess) pureport_sdk =
  NewConfiguration :: "string \<Rightarrow> 'cfg"
  WithEndPoint :: "'cfg \<Rightarrow> string \<Rightarrow> 'cfg"
  NewSession :: "'cfg \<Rightarrow> 'sess"

text \<open>
  The function also sets up the SDK's logger from a fresh default log configuration; that
  step reads nothing of \<open>d\<close> and is no part of what is returned.
\<close>

definition providerConfigure :: "('cfg, 'sess) pureport_sdk \<Rightarrow> ProviderData \<Rightarrow> 'sess \<times> error option" where
  "providerConfigure sdk d =
     (let cfg = NewConfiguration sdk [];
          cfg = WithEndPoint sdk cfg ''https://dev1-api.pureportdev.com'';
          s = NewSession sdk cfg
      in (s, None))"

section \<open>pureport: creating a connection\<close>

text \<open>
  The request types of the generated Pureport client are outside the sources. A link and the
  two connection bodies carry the fields the resource functions assign; the customer
  networks, the NAT configuration and the peering type are built by helpers
  (\<open>AddCustomerNetworks\<close>, \<open>AddNATConfiguration\<close>, \<open>AddPeeringType\<close>) whose result types are
  left open.
\<close>

typedecl CustomerNetwork
typedecl NatConfiguration
typedecl PeeringConfiguration

record Link =
  Id :: string
  Href :: string

record AzureExpressRouteConnection =
  Type_ :: string
  Name :: string
  Speed :: "32 word"
  Location :: "Link option"
  Network :: "Link option"
  BillingTerm :: string
  ServiceKey :: string
  CustomerNetworks :: "CustomerNetwork list"
  Nat :: "NatConfiguration option"
  Peering :: "PeeringConfiguration option"
  Description :: string
  HighAvailability :: bool

record DummyConnection =
  Type_ :: string
  Name :: string
  Speed :: "32 word"
  Location :: "Link option"
  Network :: "Link option"
  BillingTerm :: string
  CustomerNetworks :: "CustomerNetwork list"
  Nat :: "NatConfiguration option"
  Peering :: "PeeringConfiguration option"
  Description :: string
  HighAvailability :: bool

datatype connection = Azure AzureExpressRouteConnection | Dummy DummyConnection

record http_Response =
  StatusCode :: int
  Header :: "string \<rightharpoonup> string"

text \<open>The Terraform state of one connection, with the attributes the create functions read.\<close>

record ConnectionData =
  Id :: string
  network :: "(string \<rightharpoonup> string) list"
  location :: "(string \<rightharpoonup> string) list"
  speed :: int
  name :: string
  billing_term :: string
  service_key :: string
  description :: string
  high_availability :: bool

text \<open>
  What the connection functions call outside the sources: the three helpers, the two calls
  of the connections API on a remote state \<open>'r\<close>, \<open>url.Parse\<close> (giving the path of the URL)
  and \<open>filepath.Base\<close> of Go's library, and the writing of a connection that was read into
  the state, which is one step here.
\<close>

record 'r pureport_env =
  AddCustomerNetworks :: "ConnectionData \<Rightarrow> CustomerNetwork list"
  AddNATConfiguration :: "ConnectionData \<Rightarrow> NatConfiguration option"
  AddPeeringType :: "ConnectionData \<Rightarrow> PeeringConfiguration option"
  AddConnection :: "'r \<Rightarrow> string \<Rightarrow> connection \<Rightarrow> (http_Response option \<times> error option) \<times> 'r"
  GetConnection :: "'r \<Rightarrow> string \<Rightarrow> (connection \<times> http_Response option \<times> error option) \<times> 'r"
  url_Parse :: "string \<Rightarrow> error + string"
  filepath_Base :: "string \<Rightarrow> string"
  writeAzureConnection :: "AzureExpressRouteConnection \<Rightarrow> ConnectionData \<Rightarrow> exit \<times> ConnectionData"
  writeDummyConnection :: "DummyConnection \<Rightarrow> ConnectionData \<Rightarrow> exit \<times> ConnectionData"

text \<open>
  \<open>xs[0].(map[string]interface{})["id"].(string)\<close> and the same for \<open>"href"\<close>: an empty list
  and a missing key both panic.
\<close>

definition firstLink :: "(string \<rightharpoonup> string) list \<Rightarrow> panic + Link" where
  "firstLink xs =
     (case xs of
        [] \<Rightarrow> Inl IndexOutOfRange
      | m # _ \<Rightarrow>
          (case m ''id'' of
             None \<Rightarrow> Inl InterfaceConversion
           | Some i \<Rightarrow>
               (case m ''href'' of
                  None \<Rightarrow> Inl InterfaceConversion
                | Some h \<Rightarrow> Inr \<lparr>Link.Id = i, Href = h\<rparr>)))"

definition resourceAzureConnectionRead ::
  "'r pureport_env \<Rightarrow> ConnectionData \<Rightarrow> 'r \<Rightarrow> exit \<times> ConnectionData \<times> 'r" where
  "resourceAzureConnectionRead env d r =
     (let connectionId = Id d in
      case GetConnection env r connectionId of
        ((c, resp, Some e), r1) \<Rightarrow>
          (case deref resp of
             Inl p \<Rightarrow> (Panicked p, d, r1)
           | Inr rs \<Rightarrow>
               (Return (Some (ErrReadingConnection e)),
                (if StatusCode rs = 404 then d\<lparr>Id := []\<rparr> else d), r1))
      | ((c, resp, None), r1) \<Rightarrow>
          (case deref resp of
             Inl p \<Rightarrow> (Panicked p, d, r1)
           | Inr rs \<Rightarrow>
               if StatusCode rs \<ge> 300
               then (Return (Some (ErrResponseReadingConnection (StatusCode rs))), d, r1)
               else (case c of
                       Azure conn \<Rightarrow> (case writeAzureConnection env conn d of (x, d') \<Rightarrow> (x, d', r1))
                     | Dummy _ \<Rightarrow> (Panicked InterfaceConversion, d, r1))))"

definition resourceDummyConnectionRead ::
  "'r pureport_env \<Rightarrow> ConnectionData \<Rightarrow> 'r \<Rightarrow> exit \<times> ConnectionData \<times> 'r" where
  "resourceDummyConnectionRead env d r =
     (let connectionId = Id d in
      case GetConnection env r connectionId of
        ((c, resp, Some e), r1) \<Rightarrow>
          (case deref resp of
             Inl p \<Rightarrow> (Panicked p, d, r1)
           | Inr rs \<Rightarrow>
               (Return (Some (ErrReadingConnection e)),
                (if StatusCode rs = 404 then d\<lparr>Id := []\<rparr> else d), r1))
      | ((c, resp, None), r1) \<Rightarrow>
          (case deref resp of
             Inl p \<Rightarrow> (Panicked p, d, r1)
           | Inr rs \<Rightarrow>
               if StatusCode rs \<ge> 300
               then (Return (Some (ErrResponseReadingConnection (StatusCode rs))), d, r1)
               else (case c of
                       Dummy conn \<Rightarrow> (case writeDummyConnection env conn d of (x, d') \<Rightarrow> (x, d', r1))
                     | Azure _ \<Rightarrow> (Panicked InterfaceConversion, d, r1))))"

text \<open>
  \<open>d.GetOk\<close> says whether an attribute is set to something other than its zero value; the
  optional description and high-availability flag are copied into the body only then.

  Both create functions go on in the same way once the body of the request is built: the
  call of \<open>AddConnection\<close>, the two failure checks, the ID from the \<open>location\<close> header, and
  the read of the new connection (\<open>readFn\<close>).
\<close>

definition create_send ::
  "'r pureport_env \<Rightarrow> ('r pureport_env \<Rightarrow> ConnectionData \<Rightarrow> 'r \<Rightarrow> exit \<times> ConnectionData \<times> 'r)
     \<Rightarrow> connection \<Rightarrow> string \<Rightarrow> ConnectionData \<Rightarrow> 'r \<Rightarrow> exit \<times> ConnectionData \<times> 'r" where
  "create_send env readFn body networkId d r =
     (case AddConnection env r networkId body of
        ((resp, Some e), r1) \<Rightarrow> (Return None, d\<lparr>Id := []\<rparr>, r1)
      | ((resp, None), r1) \<Rightarrow>
          (case deref resp of
             Inl p \<Rightarrow> (Panicked p, d, r1)
           | Inr rs \<Rightarrow>
               if StatusCode rs \<ge> 300
               then (Return None, d\<lparr>Id := []\<rparr>, r1)
               else (let loc = map_index (Header rs) ''location'' in
                     case url_Parse env loc of
                       Inl e \<Rightarrow> (Return None, d, r1)
                     | Inr u_Path \<Rightarrow>
                         (let i = filepath_Base env u_Path;
                              d1 = d\<lparr>Id := i\<rparr>
                          in if i = [] then (Return None, d1, r1)
                             else readFn env d1 r1))))"

text \<open>The body of the request, from the state and the two links read from it.\<close>

definition azureConnectionBody ::
  "'r pureport_env \<Rightarrow> ConnectionData \<Rightarrow> Link \<Rightarrow> Link \<Rightarrow> AzureExpressRouteConnection" where
  "azureConnectionBody env d loc net =
     (let connection =
            \<lparr>AzureExpressRouteConnection.Type_ = ''AZURE_EXPRESS_ROUTE'',
             Name = name d,
             Speed = word_of_int (speed d),
             Location = Some loc,
             Network = Some net,
             BillingTerm = billing_term d,
             ServiceKey = service_key d,
             CustomerNetworks = AddCustomerNetworks env d,
             Nat = AddNATConfiguration env d,
             Peering = None,
             Description = (if description d \<noteq> [] then description d else []),
             HighAvailability = (if high_availability d then high_availability d else False)\<rparr>
      in connection\<lparr>AzureExpressRouteConnection.Peering := AddPeeringType env d\<rparr>)"

definition resourceAzureConnectionCreate ::
  "'r pureport_env \<Rightarrow> ConnectionData \<Rightarrow> 'r \<Rightarrow> exit \<times> ConnectionData \<times> 'r" where
  "resourceAzureConnectionCreate env d r =
     (case firstLink (location d) of
        Inl p \<Rightarrow> (Panicked p, d, r)
      | Inr loc \<Rightarrow>
          (case firstLink (network d) of
             Inl p \<Rightarrow> (Panicked p, d, r)
           | Inr net \<Rightarrow>
               create_send env resourceAzureConnectionRead
                 (Azure (azureConnectionBody env d loc net)) (Link.Id net) d r))"

definition dummyConnectionBody ::
  "'r pureport_env \<Rightarrow> ConnectionData \<Rightarrow> Link \<Rightarrow> Link \<Rightarrow> DummyConnection" where
  "dummyConnectionBody env d loc net =
     \<lparr>DummyConnection.Type_ = ''DUMMY'',
      Name = name d,
      Speed = word_of_int (speed d),
      Location = Some loc,
      Network = Some net,
      BillingTerm = billing_term d,
      CustomerNetworks = AddCustomerNetworks env d,
      Nat = AddNATConfiguration env d,
      Peering = AddPeeringType env d,
      Description = (if description d \<noteq> [] then description d else []),
      HighAvailability = (if high_availability d then high_availability d else False)\<rparr>"

definition resourceDummyConnectionCreate ::
  "'r pureport_env \<Rightarrow> ConnectionData \<Rightarrow> 'r \<Rightarrow> exit \<times> ConnectionData \<times> 'r" where
  "resourceDummyConnectionCreate env d r =
     (case firstLink (location d) of
        Inl p \<Rightarrow> (Panicked p, d, r)
      | Inr loc \<Rightarrow>
          (case firstLink (network d) of
             Inl p \<Rightarrow> (Panicked p, d, r)
           | Inr net \<Rightarrow>
               create_send env resourceDummyConnectionRead
                 (Dummy (dummyConnectionBody env d loc net)) (Link.Id net) d r))"

section \<open>azurerm: the DDoS protection plan resource\<close>

subsection \<open>Data\<close>

record SubResource =
  ID :: "string option"

record DdosProtectionPlanPropertiesFormat =
  VirtualNetworks :: "SubResource list option"

record DdosProtectionPlan =
  Response :: autorest_Response
  ID :: "string option"
  Name :: "string option"
  Location :: "string option"
  Properties :: "DdosProtectionPlanPropertiesFormat option"
  Tags :: "string \<rightharpoonup> string option"

text \<open>
  \<open>network.DdosProtectionPlan\<close> embeds the \<open>autorest.Response\<close> of the call that returned it
  (field \<open>Response\<close> above); \<open>client.Get\<close> returns such a plan and an error.
\<close>

text \<open>The fields of \<open>parseAzureResourceID\<close>'s result that the sources read.\<close>

record ResourceID =
  ResourceGroup :: string
  Path :: "string \<rightharpoonup> string"

text \<open>
  The Terraform state of one plan, \<open>*schema.ResourceData\<close>, with the attributes of the
  resource's schema.
\<close>

record ResourceData =
  Id :: string
  IsNewResource :: bool
  name :: string
  location :: string
  resource_group_name :: string
  virtual_network_ids :: "string list"
  tags :: "string \<rightharpoonup> string"

subsection \<open>Named locks\<close>

text \<open>
  Modelled from the spec: \<open>azureRMLockByName\<close>, \<open>azureRMUnlockByName\<close> and their
  \<open>Multiple\<close> variants are called by the resource but defined in a file that is not among
  the sources. The spec says that a mutation "acquires named locks (by resource name) for
  itself and for any other resources it references, in a fixed order", and speaks of
  "named-mutex acquisition across a dynamically computed set of resource names, in a stable
  order". So a lock is named by a resource name under a resource type, each call is
  recorded, in the order it happens, in a trace, and the variants for several names take
  the names in a fixed order, whatever the order of the list they are given: the order of
  the names as strings.
\<close>

type_synonym lock_name = "string \<times> string"

datatype lock_event = Lock lock_name | Unlock lock_name

definition azureRMLockByName :: "string \<Rightarrow> string \<Rightarrow> lock_event list \<Rightarrow> lock_event list" where
  "azureRMLockByName nm resourceType tr = tr @ [Lock (resourceType, nm)]"

definition azureRMUnlockByName :: "string \<Rightarrow> string \<Rightarrow> lock_event list \<Rightarrow> lock_event list" where
  "azureRMUnlockByName nm resourceType tr = tr @ [Unlock (resourceType, nm)]"

definition azureRMLockMultipleByName :: "string list \<Rightarrow> string \<Rightarrow> lock_event list \<Rightarrow> lock_event list" where
  "azureRMLockMultipleByName names resourceType tr =
     fold (\<lambda>nm. azureRMLockByName nm resourceType) (sort names) tr"

definition azureRMUnlockMultipleByName :: "string list \<Rightarrow> string \<Rightarrow> lock_event list \<Rightarrow> lock_event list" where
  "azureRMUnlockMultipleByName names resourceType tr =
     fold (\<lambda>nm. azureRMUnlockByName nm resourceType) (sort names) tr"

text \<open>The locks held after a trace, starting from the locks \<open>H\<close>.\<close>

fun held :: "lock_name multiset \<Rightarrow> lock_event list \<Rightarrow> lock_name multiset" where
  "held H [] = H"
| "held H (Lock k # evs) = held (add_mset k H) evs"
| "held H (Unlock k # evs) = held (H - {#k#}) evs"

fun acquired :: "lock_event list \<Rightarrow> lock_name list" where
  "acquired [] = []"
| "acquired (Lock k # evs) = k # acquired evs"
| "acquired (Unlock k # evs) = acquired evs"

fun released :: "lock_event list \<Rightarrow> lock_name list" where
  "released [] = []"
| "released (Lock k # evs) = released evs"
| "released (Unlock k # evs) = k # released evs"

definition azureDDoSProtectionPlanResourceName :: string where
  "azureDDoSProtectionPlanResourceName = ''azurerm_ddos_protection_plan''"

text \<open>
  Modelled from the spec: \<open>virtualNetworkResourceName\<close> is a constant of the virtual network
  resource, whose file is not among the sources; it is "the virtual-network resource name",
  one fixed name.
\<close>

definition virtualNetworkResourceName :: string where
  "virtualNetworkResourceName = ''azurerm_virtual_network''"

subsection \<open>The environment of the resource functions\<close>

text \<open>
  Everything the resource functions call outside the sources is a parameter: the package flag
  \<open>requireResourcesToBeImported\<close>, the helpers \<open>parseAzureResourceID\<close>,
  \<open>azure.NormalizeLocation\<close>, \<open>expandTags\<close> and \<open>flattenAndSetTags\<close>, the outcome of
  \<open>d.Set\<close> for an attribute (Terraform's schema package), and the Azure client. The remote
  service has a state \<open>'r\<close> of its own, which each call may read and change, so that two
  calls of \<open>Get\<close> in one run can answer differently.
\<close>

record 'r azure_env =
  requireResourcesToBeImported :: bool
  parseAzureResourceID :: "string \<Rightarrow> error + ResourceID"
  NormalizeLocation :: "string \<Rightarrow> string"
  expandTags :: "(string \<rightharpoonup> string) \<Rightarrow> (string \<rightharpoonup> string option)"
  flattenAndSetTags :: "ResourceData \<Rightarrow> (string \<rightharpoonup> string option) \<Rightarrow> ResourceData"
  setError :: "string \<Rightarrow> error option"
  client_Get :: "'r \<Rightarrow> string \<Rightarrow> string \<Rightarrow> (DdosProtectionPlan \<times> error option) \<times> 'r"
  client_CreateOrUpdate ::
    "'r \<Rightarrow> string \<Rightarrow> string \<Rightarrow> DdosProtectionPlan \<Rightarrow> error option \<times> 'r"
  client_Delete :: "'r \<Rightarrow> string \<Rightarrow> string \<Rightarrow> error option \<times> 'r"
  future_WaitForCompletionRef :: "'r \<Rightarrow> error option \<times> 'r"

text \<open>What a resource function runs in: the remote service and the trace of lock calls.\<close>

record 'r world =
  remote :: 'r
  lockTrace :: "lock_event list"

text \<open>
  \<open>d.Set(key, value)\<close>: the attribute is written unless the schema package reports an error
  for it.
\<close>

definition dSet ::
  "'r azure_env \<Rightarrow> string \<Rightarrow> (ResourceData \<Rightarrow> ResourceData) \<Rightarrow> ResourceData
     \<Rightarrow> error option \<times> ResourceData" where
  "dSet env key upd d = (case setError env key of None \<Rightarrow> (None, upd d) | Some e \<Rightarrow> (Some e, d))"

subsection \<open>flattenArmVirtualNetworkIDs\<close>

fun flatten_loop :: "SubResource list \<Rightarrow> string list \<Rightarrow> panic + string list" where
  "flatten_loop [] vnetIDs = Inr vnetIDs"
| "flatten_loop (subRes # rest) vnetIDs =
     (if SubResource.ID subRes \<noteq> None
      then (case deref (SubResource.ID subRes) of
              Inl p \<Rightarrow> Inl p
            | Inr v \<Rightarrow> flatten_loop rest (vnetIDs @ [v]))
      else flatten_loop rest vnetIDs)"

definition flattenArmVirtualNetworkIDs :: "SubResource list option \<Rightarrow> panic + string list" where
  "flattenArmVirtualNetworkIDs input =
     (let vnetIDs = [] in
      if input = None then Inr vnetIDs
      else (case deref input of
              Inl p \<Rightarrow> Inl p
            | Inr subs \<Rightarrow> flatten_loop subs vnetIDs))"

subsection \<open>extractVnetNames\<close>

text \<open>
  Modelled from the spec: \<open>sliceContainsValue\<close> is called by \<open>extractVnetNames\<close> but defined
  in a file that is not among the sources; by its name and its use (the names are computed
  as a set) it tells whether the value is an element of the slice.
\<close>

fun sliceContainsValue :: "string list \<Rightarrow> string \<Rightarrow> bool" where
  "sliceContainsValue [] v = False"
| "sliceContainsValue (x # input) v = (if x = v then True else sliceContainsValue input v)"

fun extract_loop ::
  "(string \<Rightarrow> error + ResourceID) \<Rightarrow> string list \<Rightarrow> string list \<Rightarrow> error + string list" where
  "extract_loop parse [] vnetNames = Inr vnetNames"
| "extract_loop parse (vnetID # rest) vnetNames =
     (case parse vnetID of
        Inl e \<Rightarrow> Inl e
      | Inr vnetResourceID \<Rightarrow>
          (let vnetName = map_index (Path vnetResourceID) ''virtualNetworks'' in
           if \<not> sliceContainsValue vnetNames vnetName
           then extract_loop parse rest (vnetNames @ [vnetName])
           else extract_loop parse rest vnetNames))"

definition extractVnetNames :: "'r azure_env \<Rightarrow> ResourceData \<Rightarrow> error + string list" where
  "extractVnetNames env d =
     (let vnetIDs = virtual_network_ids d; vnetNames = []
      in extract_loop (parseAzureResourceID env) vnetIDs vnetNames)"

subsection \<open>resourceArmDDoSProtectionPlanRead\<close>

text \<open>
  The second half of the function, once \<open>Get\<close> has succeeded: the plan is written into
  the state. \<open>d.Set\<close> of a nil pointer leaves the attribute at its zero value.
\<close>

definition read_setState ::
  "'r azure_env \<Rightarrow> DdosProtectionPlan \<Rightarrow> string \<Rightarrow> ResourceData \<Rightarrow> exit \<times> ResourceData" where
  "read_setState env pl resourceGroup d =
     (let d1 = snd (dSet env ''name''
                 (\<lambda>x. x\<lparr>name := (case Name pl of None \<Rightarrow> [] | Some n \<Rightarrow> n)\<rparr>) d);
          d2 = snd (dSet env ''resource_group_name'' (\<lambda>x. x\<lparr>resource_group_name := resourceGroup\<rparr>) d1);
          d3 = (case DdosProtectionPlan.Location pl of
                  None \<Rightarrow> d2
                | Some loc \<Rightarrow> snd (dSet env ''location'' (\<lambda>x. x\<lparr>location := NormalizeLocation env loc\<rparr>) d2))
      in case Properties pl of
           None \<Rightarrow> (Return None, flattenAndSetTags env d3 (DdosProtectionPlan.Tags pl))
         | Some props \<Rightarrow>
             (case flattenArmVirtualNetworkIDs (VirtualNetworks props) of
                Inl p \<Rightarrow> (Panicked p, d3)
              | Inr vNetIDs \<Rightarrow>
                  (case dSet env ''virtual_network_ids'' (\<lambda>x. x\<lparr>virtual_network_ids := vNetIDs\<rparr>) d3 of
                     (Some e, d4) \<Rightarrow> (Return (Some (ErrSettingVirtualNetworkIds e)), d4)
                   | (None, d4) \<Rightarrow>
                       (Return None, flattenAndSetTags env d4 (DdosProtectionPlan.Tags pl)))))"

definition resourceArmDDoSProtectionPlanRead ::
  "'r azure_env \<Rightarrow> ResourceData \<Rightarrow> 'r world \<Rightarrow> exit \<times> ResourceData \<times> 'r world" where
  "resourceArmDDoSProtectionPlanRead env d w =
     (case parseAzureResourceID env (Id d) of
        Inl e \<Rightarrow> (Return (Some e), d, w)
      | Inr rid \<Rightarrow>
          (let resourceGroup = ResourceGroup rid;
               nm = map_index (Path rid) ''ddosProtectionPlans''
           in case client_Get env (remote w) resourceGroup nm of
                ((pl, e), r) \<Rightarrow>
                  (let w1 = w\<lparr>remote := r\<rparr> in
                   case e of
                     Some e' \<Rightarrow>
                       if ResponseWasNotFound (DdosProtectionPlan.Response pl)
                       then (Return None, d\<lparr>Id := []\<rparr>, w1)
                       else (Return (Some (ErrMakingReadRequest e')), d, w1)
                   | None \<Rightarrow>
                       (case read_setState env pl resourceGroup d of
                          (x, d') \<Rightarrow> (x, d', w1)))))"

subsection \<open>resourceArmDDoSProtectionPlanCreateUpdate\<close>

text \<open>
  The check for an existing plan at the head of the function: \<open>Some e\<close> when it returns the
  error \<open>e\<close>, \<open>None\<close> when the function goes on.
\<close>

definition createUpdate_importCheck ::
  "'r azure_env \<Rightarrow> ResourceData \<Rightarrow> 'r world \<Rightarrow> string \<Rightarrow> string \<Rightarrow> error option \<times> 'r world" where
  "createUpdate_importCheck env d w nm resourceGroup =
     (if requireResourcesToBeImported env \<and> IsNewResource d
      then (case client_Get env (remote w) resourceGroup nm of
              ((existing, e), r) \<Rightarrow>
                (let w1 = w\<lparr>remote := r\<rparr>;
                     exists = (case DdosProtectionPlan.ID existing of
                                 None \<Rightarrow> (None, w1)
                               | Some i \<Rightarrow>
                                   if i \<noteq> []
                                   then (Some (ImportAsExistsError ''azurerm_ddos_protection_plan'' i), w1)
                                   else (None, w1))
                 in case e of
                      Some e' \<Rightarrow>
                        if \<not> ResponseWasNotFound (DdosProtectionPlan.Response existing)
                        then (Some (ErrCheckingPresence e'), w1)
                        else exists
                    | None \<Rightarrow> exists))
      else (None, w))"

text \<open>The function between the two \<open>defer\<close> statements and its return.\<close>

definition createUpdate_locked ::
  "'r azure_env \<Rightarrow> ResourceData \<Rightarrow> 'r world \<Rightarrow> string \<Rightarrow> string \<Rightarrow> string
     \<Rightarrow> (string \<rightharpoonup> string) \<Rightarrow> exit \<times> ResourceData \<times> 'r world" where
  "createUpdate_locked env d w nm resourceGroup loc tgs =
     (let parameters = \<lparr>Response = None, ID = None, Name = None, Location = Some loc,
                         Properties = None, Tags = expandTags env tgs\<rparr>
      in case client_CreateOrUpdate env (remote w) resourceGroup nm parameters of
           (Some e, r1) \<Rightarrow> (Return (Some (ErrCreatingUpdating e)), d, w\<lparr>remote := r1\<rparr>)
         | (None, r1) \<Rightarrow>
             (case future_WaitForCompletionRef env r1 of
                (Some e, r2) \<Rightarrow> (Return (Some (ErrWaitingForCreation e)), d, w\<lparr>remote := r2\<rparr>)
              | (None, r2) \<Rightarrow>
                  (case client_Get env r2 resourceGroup nm of
                     ((pl, Some e), r3) \<Rightarrow> (Return (Some (ErrRetrievingPlan e)), d, w\<lparr>remote := r3\<rparr>)
                   | ((pl, None), r3) \<Rightarrow>
                       (case DdosProtectionPlan.ID pl of
                          None \<Rightarrow> (Return (Some ErrCannotReadPlanID), d, w\<lparr>remote := r3\<rparr>)
                        | Some i \<Rightarrow>
                            resourceArmDDoSProtectionPlanRead env (d\<lparr>Id := i\<rparr>) (w\<lparr>remote := r3\<rparr>)))))"

text \<open>
  A \<open>defer\<close>red call runs when the function returns, whatever the return statement, the
  last deferred first: here the unlocking of the virtual networks, then of the plan.
\<close>

definition resourceArmDDoSProtectionPlanCreateUpdate ::
  "'r azure_env \<Rightarrow> ResourceData \<Rightarrow> 'r world \<Rightarrow> exit \<times> ResourceData \<times> 'r world" where
  "resourceArmDDoSProtectionPlanCreateUpdate env d w =
     (let nm = name d; resourceGroup = resource_group_name d
      in case createUpdate_importCheck env d w nm resourceGroup of
           (Some e, w1) \<Rightarrow> (Return (Some e), d, w1)
         | (None, w1) \<Rightarrow>
             (let loc = NormalizeLocation env (location d); tgs = tags d
              in case extractVnetNames env d of
                   Inl e \<Rightarrow> (Return (Some (ErrExtractingVnetNames e)), d, w1)
                 | Inr vnetsToLock \<Rightarrow>
                     (let w2 = w1\<lparr>lockTrace :=
                                 azureRMLockByName nm azureDDoSProtectionPlanResourceName (lockTrace w1)\<rparr>;
                          w3 = w2\<lparr>lockTrace :=
                                 azureRMLockMultipleByName vnetsToLock virtualNetworkResourceName (lockTrace w2)\<rparr>
                      in case createUpdate_locked env d w3 nm resourceGroup loc tgs of
                           (x, d', w4) \<Rightarrow>
                             (let w5 = w4\<lparr>lockTrace :=
                                         azureRMUnlockMultipleByName vnetsToLock virtualNetworkResourceName
                                           (lockTrace w4)\<rparr>;
                                  w6 = w5\<lparr>lockTrace :=
                                         azureRMUnlockByName nm azureDDoSProtectionPlanResourceName
                                           (lockTrace w5)\<rparr>
                              in (x, d', w6)))))"

subsection \<open>resourceArmDDoSProtectionPlanDelete\<close>

definition delete_locked ::
  "'r azure_env \<Rightarrow> ResourceData \<Rightarrow> 'r world \<Rightarrow> string \<Rightarrow> string \<Rightarrow> exit \<times> ResourceData \<times> 'r world" where
  "delete_locked env d w nm resourceGroup =
     (case client_Delete env (remote w) resourceGroup nm of
        (Some e, r1) \<Rightarrow> (Return (Some (ErrDeletingPlan e)), d, w\<lparr>remote := r1\<rparr>)
      | (None, r1) \<Rightarrow>
          (case future_WaitForCompletionRef env r1 of
             (Some e, r2) \<Rightarrow> (Return (Some (ErrWaitingForDeletion e)), d, w\<lparr>remote := r2\<rparr>)
           | (None, r2) \<Rightarrow> (Return None, d, w\<lparr>remote := r2\<rparr>)))"

definition resourceArmDDoSProtectionPlanDelete ::
  "'r azure_env \<Rightarrow> ResourceData \<Rightarrow> 'r world \<Rightarrow> exit \<times> ResourceData \<times> 'r world" where
  "resourceArmDDoSProtectionPlanDelete env d w =
     (case parseAzureResourceID env (Id d) of
        Inl e \<Rightarrow> (Return (Some e), d, w)
      | Inr rid \<Rightarrow>
          (let resourceGroup = ResourceGroup rid;
               nm = map_index (Path rid) ''ddosProtectionPlans''
           in case client_Get env (remote w) resourceGroup nm of
                ((rd, Some e), r) \<Rightarrow>
                  if ResponseWasNotFound (DdosProtectionPlan.Response rd)
                  then (Return None, d, w\<lparr>remote := r\<rparr>)
                  else (Return (Some (ErrRetrievingPlan e)), d, w\<lparr>remote := r\<rparr>)
              | ((rd, None), r) \<Rightarrow>
                  (let w1 = w\<lparr>remote := r\<rparr> in
                   case extractVnetNames env d of
                     Inl e \<Rightarrow> (Return (Some (ErrExtractingVnetNames e)), d, w1)
                   | Inr vnetsToLock \<Rightarrow>
                       (let w2 = w1\<lparr>lockTrace :=
                                   azureRMLockByName nm azureDDoSProtectionPlanResourceName (lockTrace w1)\<rparr>;
                            w3 = w2\<lparr>lockTrace :=
                                   azureRMLockMultipleByName vnetsToLock virtualNetworkResourceName
                                     (lockTrace w2)\<rparr>
                        in case delete_locked env d w3 nm resourceGroup of
                             (x, d', w4) \<Rightarrow>
                               (let w5 = w4\<lparr>lockTrace :=
                                           azureRMUnlockMultipleByName vnetsToLock virtualNetworkResourceName
                                             (lockTrace w4)\<rparr>;
                                    w6 = w5\<lparr>lockTrace :=
                                           azureRMUnlockByName nm azureDDoSProtectionPlanResourceName
                                             (lockTrace w5)\<rparr>
                                in (x, d', w6))))))"

section \<open>azurerm: the storage key cache\<close>

record StorageAccountKey =
  Value :: "string option"

text \<open>\<open>storage.AccountListKeysResult\<close>: the embedded response and the pointer to the keys.\<close>

record AccountListKeysResult =
  Response :: autorest_Response
  Keys :: "StorageAccountKey list option"

text \<open>
  The package variable \<open>storageKeyCache\<close>, the storage service behind
  \<open>c.storageServiceClient\<close>, and a log of the calls of \<open>ListKeys\<close> made so far. The
  reader/writer lock \<open>storageKeyCacheMu\<close> orders the accesses of concurrent callers; the
  model runs one call at a time.
\<close>

record 'r arm_state =
  storageKeyCache :: "string \<rightharpoonup> string"
  storageService :: 'r
  listKeysCalls :: "(string \<times> string) list"

type_synonym 'r ListKeys = "'r \<Rightarrow> string \<Rightarrow> string \<Rightarrow> (AccountListKeysResult \<times> error option) \<times> 'r"

definition cacheIndex :: "string \<Rightarrow> string \<Rightarrow> string" where
  "cacheIndex resourceGroupName storageAccountName = resourceGroupName @ ''/'' @ storageAccountName"

text \<open>The part of the function under the write lock, when the second lookup misses.\<close>

definition getKey_fetch ::
  "'r ListKeys \<Rightarrow> 'r arm_state \<Rightarrow> string \<Rightarrow> string
     \<Rightarrow> (string \<times> bool \<times> error option) \<times> 'r arm_state" where
  "getKey_fetch ListKeys st resourceGroupName storageAccountName =
     (case ListKeys (storageService st) resourceGroupName storageAccountName of
        ((accountKeys, e), r) \<Rightarrow>
          (let st1 = st\<lparr>storageService := r,
                        listKeysCalls := listKeysCalls st @ [(resourceGroupName, storageAccountName)]\<rparr>
           in if ResponseWasNotFound (AccountListKeysResult.Response accountKeys)
              then (([], False, None), st1)
              else (case e of
                      Some e' \<Rightarrow> (([], True, Some (ErrRetrievingKeys e')), st1)
                    | None \<Rightarrow>
                        (case Keys accountKeys of
                           None \<Rightarrow> (([], False, Some ErrNilKeyReturned), st1)
                         | Some keys \<Rightarrow>
                             if length keys \<le> 0
                             then (([], False, Some ErrNoKeysReturned), st1)
                             else (case Value (keys ! 0) of
                                     None \<Rightarrow> (([], False, Some ErrFirstKeyNil), st1)
                                   | Some key \<Rightarrow>
                                       ((key, True, None),
                                        st1\<lparr>storageKeyCache :=
                                          (storageKeyCache st1)
                                            (cacheIndex resourceGroupName storageAccountName \<mapsto> key)\<rparr>))))))"

definition getKeyForStorageAccount ::
  "'r ListKeys \<Rightarrow> 'r arm_state \<Rightarrow> string \<Rightarrow> string
     \<Rightarrow> (string \<times> bool \<times> error option) \<times> 'r arm_state" where
  "getKeyForStorageAccount ListKeys st resourceGroupName storageAccountName =
     (case storageKeyCache st (cacheIndex resourceGroupName storageAccountName) of
        Some key \<Rightarrow> ((key, True, None), st)
      | None \<Rightarrow>
          (case storageKeyCache st (cacheIndex resourceGroupName storageAccountName) of
             Some key \<Rightarrow> ((key, True, None), st)
           | None \<Rightarrow> getKey_fetch ListKeys st resourceGroupName storageAccountName))"

text \<open>A sequence of calls, each for a resource group and a storage account; the results in order.\<close>

fun getKeys ::
  "'r ListKeys \<Rightarrow> 'r arm_state \<Rightarrow> (string \<times> string) list
     \<Rightarrow> (string \<times> bool \<times> error option) list \<times> 'r arm_state" where
  "getKeys ListKeys st [] = ([], st)"
| "getKeys ListKeys st ((g, a) # calls) =
     (case getKeyForStorageAccount ListKeys st g a of
        (res, st1) \<Rightarrow> (case getKeys ListKeys st1 calls of (ress, st2) \<Rightarrow> (res # ress, st2)))"

section \<open>Observations and sample inputs\<close>

text \<open>
  The virtual-network name \<open>extractVnetNames\<close> reads from one ID, the names of a list in
  the order of their first occurrence, and the lock events a run adds to the trace.
\<close>

definition vnetNameOf :: "(string \<Rightarrow> error + ResourceID) \<Rightarrow> string \<Rightarrow> string" where
  "vnetNameOf parse vnetID =
     (case parse vnetID of Inl e \<Rightarrow> [] | Inr rid \<Rightarrow> map_index (Path rid) ''virtualNetworks'')"

definition firstOccurrences :: "'a list \<Rightarrow> 'a list" where
  "firstOccurrences xs = rev (remdups (rev xs))"

definition newEvents :: "'r world \<Rightarrow> (exit \<times> ResourceData \<times> 'r world) \<Rightarrow> lock_event list" where
  "newEvents w res = drop (length (lockTrace w)) (lockTrace (snd (snd res)))"



text \<open>
  Modelled from the spec: \<open>parseAzureResourceID\<close> is not among the sources and the spec
  does not describe it beyond an ID parsing as an Azure resource ID or failing to; the
  resource functions above take it as a parameter, and the general properties below hold
  for every parser. To run the functions on sample IDs, \<open>parseSegments\<close> reads an ID as
  \<open>/key/value/...\<close> segments: it fails on an ID that does not start with \<open>/\<close>, has an
  odd number of segments, an empty segment, or no subscription.
\<close>

fun splitSlash :: "string \<Rightarrow> string list" where
  "splitSlash [] = [[]]"
| "splitSlash (c # cs) =
     (if c = CHR ''/'' then [] # splitSlash cs
      else (case splitSlash cs of [] \<Rightarrow> [[c]] | seg # segs \<Rightarrow> (c # seg) # segs))"

fun pairUp :: "string list \<Rightarrow> (string \<times> string) list option" where
  "pairUp [] = Some []"
| "pairUp [k] = None"
| "pairUp (k # v # rest) =
     (if k = [] then None else if v = [] then None
      else (case pairUp rest of None \<Rightarrow> None | Some kvs \<Rightarrow> Some ((k, v) # kvs)))"

definition parseSegments :: "string \<Rightarrow> error + ResourceID" where
  "parseSegments s =
     (case s of
        [] \<Rightarrow> Inl (External ''Cannot parse Azure Id'')
      | c # cs \<Rightarrow>
          if c = CHR ''/''
          then (case pairUp (splitSlash cs) of
                  None \<Rightarrow> Inl (External ''Cannot parse Azure Id'')
                | Some kvs \<Rightarrow>
                    (case map_of kvs ''subscriptions'' of
                       None \<Rightarrow> Inl (External ''No subscription ID found'')
                     | Some sub \<Rightarrow>
                         Inr \<lparr>ResourceGroup = map_index (map_of kvs) ''resourceGroups'',
                              Path = map_of (rev kvs)\<rparr>))
          else Inl (External ''Cannot parse Azure Id''))"

text \<open>
  A sample environment: plans need not be imported, \<open>d.Set\<close> succeeds, and the remote
  service (with no state of its own) accepts every change and answers every \<open>Get\<close> with a
  404 and an error.
\<close>

definition sample_env :: "unit azure_env" where
  "sample_env =
     \<lparr>requireResourcesToBeImported = False,
      parseAzureResourceID = parseSegments,
      NormalizeLocation = (\<lambda>l. l),
      expandTags = (\<lambda>t k. map_option Some (t k)),
      flattenAndSetTags = (\<lambda>d t. d),
      setError = (\<lambda>k. None),
      client_Get = (\<lambda>r g n.
        ((\<lparr>DdosProtectionPlan.Response = Some 404, ID = None, Name = None, Location = None,
            Properties = None, Tags = Map.empty\<rparr>, Some (External ''not found'')), r)),
      client_CreateOrUpdate = (\<lambda>r g n p. (None, r)),
      client_Delete = (\<lambda>r g n. (None, r)),
      future_WaitForCompletionRef = (\<lambda>r. (None, r))\<rparr>"

definition sample_world :: "unit world" where
  "sample_world = \<lparr>remote = (), lockTrace = []\<rparr>"

definition sample_plan :: "string list \<Rightarrow> ResourceData" where
  "sample_plan ids =
     \<lparr>Id = ''/subscriptions/s/resourceGroups/g/ddosProtectionPlans/p'',
      IsNewResource = False,
      name = ''p'',
      location = ''westeurope'',
      resource_group_name = ''g'',
      virtual_network_ids = ids,
      tags = Map.empty\<rparr>"

definition vnet_a :: string where
  "vnet_a = ''/subscriptions/s/resourceGroups/g/virtualNetworks/a''"

definition vnet_b :: string where
  "vnet_b = ''/subscriptions/s/resourceGroups/g/virtualNetworks/b''"

text \<open>A second ID of a network named \<open>a\<close>, in another resource group.\<close>

definition vnet_a2 :: string where
  "vnet_a2 = ''/subscriptions/s/resourceGroups/h/virtualNetworks/a''"

text \<open>
  The events of a run that reaches the locks: the plan, the virtual networks, and their
  release by the deferred calls. Whether a run reaches the locks depends on the checks
  before them.
\<close>

definition lockBracket :: "string \<Rightarrow> string list \<Rightarrow> lock_event list" where
  "lockBracket nm names =
     Lock (azureDDoSProtectionPlanResourceName, nm)
       # map (\<lambda>n. Lock (virtualNetworkResourceName, n)) (sort names)
       @ map (\<lambda>n. Unlock (virtualNetworkResourceName, n)) (sort names)
       @ [Unlock (azureDDoSProtectionPlanResourceName, nm)]"

definition planNameOfId :: "'r azure_env \<Rightarrow> ResourceData \<Rightarrow> string" where
  "planNameOfId env d =
     (case parseAzureResourceID env (Id d) of
        Inl e \<Rightarrow> []
      | Inr rid \<Rightarrow> map_index (Path rid) ''ddosProtectionPlans'')"

definition createUpdate_reachesLocks :: "'r azure_env \<Rightarrow> ResourceData \<Rightarrow> 'r world \<Rightarrow> bool" where
  "createUpdate_reachesLocks env d w =
     (fst (createUpdate_importCheck env d w (name d) (resource_group_name d)) = None
      \<and> \<not> isl (extractVnetNames env d))"

definition delete_reachesLocks :: "'r azure_env \<Rightarrow> ResourceData \<Rightarrow> 'r world \<Rightarrow> bool" where
  "delete_reachesLocks env d w =
     (case parseAzureResourceID env (Id d) of
        Inl e \<Rightarrow> False
      | Inr rid \<Rightarrow>
          snd (fst (client_Get env (remote w) (ResourceGroup rid)
                      (map_index (Path rid) ''ddosProtectionPlans''))) = None
          \<and> \<not> isl (extractVnetNames env d))"

text \<open>
  The sample environment with a remote service that fails with a 500 instead, and with one
  that finds the plan, attached to the network \<open>a\<close>.
\<close>

definition sample_env_found :: "unit azure_env" where
  "sample_env_found =
     sample_env\<lparr>client_Get := (\<lambda>r g n.
        ((\<lparr>DdosProtectionPlan.Response = Some 200,
            ID = Some ''/subscriptions/s/resourceGroups/g/ddosProtectionPlans/p'',
            Name = Some n, Location = Some ''westeurope'',
            Properties = Some \<lparr>VirtualNetworks = Some [\<lparr>SubResource.ID = Some vnet_a\<rparr>]\<rparr>,
            Tags = Map.empty\<rparr>, None), r))\<rparr>"

definition sample_env_500 :: "unit azure_env" where
  "sample_env_500 =
     sample_env\<lparr>client_Get := (\<lambda>r g n.
        ((\<lparr>DdosProtectionPlan.Response = Some 500, ID = None, Name = None, Location = None,
            Properties = None, Tags = Map.empty\<rparr>, Some (External ''server error'')), r))\<rparr>"

text \<open>The environment in which the plan is found but \<open>virtual_network_ids\<close> cannot be set.\<close>

definition sample_env_set_fails :: "unit azure_env" where
  "sample_env_set_fails =
     sample_env_found\<lparr>setError := (\<lambda>key.
        if key = ''virtual_network_ids'' then Some (External ''invalid list'') else None)\<rparr>"



text \<open>
  A storage service whose keys change with every call of \<open>ListKeys\<close> (its state counts
  the calls) and which does not know the account \<open>gone\<close>; the state of a fresh process,
  and the state after one call for the account \<open>acct\<close> of the resource group \<open>rg\<close>.
\<close>

definition sample_ListKeys :: "nat ListKeys" where
  "sample_ListKeys r g a =
     (if a = ''gone''
      then ((\<lparr>AccountListKeysResult.Response = Some 404, Keys = None\<rparr>, Some (External ''not found'')), Suc r)
      else ((\<lparr>AccountListKeysResult.Response = Some 200,
               Keys = Some [\<lparr>Value = Some (''key'' @ replicate r CHR ''+'')\<rparr>,
                            \<lparr>Value = Some ''secondary''\<rparr>]\<rparr>, None), Suc r))"

definition sample_state :: "nat arm_state" where
  "sample_state = \<lparr>storageKeyCache = Map.empty, storageService = 0, listKeysCalls = []\<rparr>"

definition sample_cached :: "nat arm_state" where
  "sample_cached =
     \<lparr>storageKeyCache = [''rg/acct'' \<mapsto> ''key''], storageService = 1,
      listKeysCalls = [(''rg'', ''acct'')]\<rparr>"



text \<open>
  A Pureport service whose state is the status code it answers \<open>AddConnection\<close> with,
  \<open>0\<close> standing for a call that fails without a response.
\<close>

definition sample_pureport_env :: "int pureport_env" where
  "sample_pureport_env =
     \<lparr>AddCustomerNetworks = (\<lambda>d. []),
      AddNATConfiguration = (\<lambda>d. None),
      AddPeeringType = (\<lambda>d. None),
      AddConnection = (\<lambda>r networkId body.
        if r = 0 then ((None, Some (External ''connection refused'')), r)
        else ((Some \<lparr>StatusCode = r, Header = Map.empty\<rparr>, None), r)),
      GetConnection = (\<lambda>r connectionId.
        ((Dummy \<lparr>DummyConnection.Type_ = ''DUMMY'', Name = [], Speed = 0, Location = None,
                  Network = None, BillingTerm = [], CustomerNetworks = [], Nat = None,
                  Peering = None, Description = [], HighAvailability = False\<rparr>,
          None, Some (External ''connection refused'')), r)),
      url_Parse = (\<lambda>s. Inr s),
      filepath_Base = (\<lambda>p. p),
      writeAzureConnection = (\<lambda>c d. (Return None, d)),
      writeDummyConnection = (\<lambda>c d. (Return None, d))\<rparr>"

definition sample_link :: "string \<rightharpoonup> string" where
  "sample_link = [''id'' \<mapsto> ''network-1'', ''href'' \<mapsto> ''/networks/network-1'']"

definition sample_connection :: ConnectionData where
  "sample_connection =
     \<lparr>ConnectionData.Id = ''old'',
      network = [sample_link],
      location = [sample_link],
      speed = 100,
      name = ''conn'',
      billing_term = ''HOURLY'',
      service_key = ''key'',
      description = [],
      high_availability = False\<rparr>"

section \<open>Properties\<close>

subsection \<open>Flattening the virtual networks of a plan\<close>

lemma flatten_loop_eq:
  "flatten_loop subs acc = Inr (acc @ List.map_filter SubResource.ID subs)"
  by (induction subs arbitrary: acc) (auto simp: deref_def List.map_filter_simps)

text \<open>
  C7. \<open>flattenArmVirtualNetworkIDs\<close> returns on every input and never dereferences a nil
  pointer (the result is never a panic): for nil it returns the empty list, and for a list
  of sub-resources it returns the IDs of the elements whose ID pointer is not nil, in their
  original order.
\<close>

theorem flattenArmVirtualNetworkIDs_total:
  "flattenArmVirtualNetworkIDs None = Inr []
   \<and> flattenArmVirtualNetworkIDs (Some subs) = Inr (List.map_filter SubResource.ID subs)"
  by (simp add: flattenArmVirtualNetworkIDs_def deref_def flatten_loop_eq)

subsection \<open>The names of the virtual networks to lock\<close>

lemma sliceContainsValue_iff: "sliceContainsValue xs v \<longleftrightarrow> v \<in> set xs"
  by (induction xs) auto

lemma firstOccurrences_skip:
  "x \<in> set xs \<Longrightarrow> firstOccurrences (xs @ x # ys) = firstOccurrences (xs @ ys)"
proof -
  assume x: "x \<in> set xs"
  have "remdups (zs @ x # rev xs) = remdups (zs @ rev xs)" for zs
    using x by (induction zs) (auto simp: insert_absorb)
  then show ?thesis
    by (simp add: firstOccurrences_def)
qed

lemma firstOccurrences_distinct_id: "distinct xs \<Longrightarrow> firstOccurrences xs = xs"
  by (simp add: firstOccurrences_def distinct_remdups_id)

lemma extract_loop_error:
  "isl (extract_loop parse ids acc) \<longleftrightarrow> (\<exists>i \<in> set ids. isl (parse i))"
  by (induction ids arbitrary: acc) (auto split: sum.splits simp: Let_def)

lemma extract_loop_ok:
  "\<forall>i \<in> set ids. \<not> isl (parse i) \<Longrightarrow> distinct acc \<Longrightarrow>
   extract_loop parse ids acc = Inr (firstOccurrences (acc @ map (vnetNameOf parse) ids))"
proof (induction ids arbitrary: acc)
  case Nil
  then show ?case by (simp add: firstOccurrences_distinct_id)
next
  case (Cons i ids)
  then obtain rid where p: "parse i = Inr rid" by (cases "parse i") auto
  show ?case
  proof (cases "vnetNameOf parse i \<in> set acc")
    case True
    have "firstOccurrences (acc @ vnetNameOf parse i # map (vnetNameOf parse) ids)
          = firstOccurrences (acc @ map (vnetNameOf parse) ids)"
      using True by (rule firstOccurrences_skip)
    moreover have "extract_loop parse (i # ids) acc = extract_loop parse ids acc"
      using True p by (simp add: sliceContainsValue_iff vnetNameOf_def)
    ultimately show ?thesis using Cons.IH [of acc] Cons.prems by simp
  next
    case False
    have "extract_loop parse (i # ids) acc = extract_loop parse ids (acc @ [vnetNameOf parse i])"
      using False p by (simp add: sliceContainsValue_iff vnetNameOf_def)
    moreover have "distinct (acc @ [vnetNameOf parse i])"
      using False Cons.prems by simp
    ultimately show ?thesis using Cons.IH [of "acc @ [vnetNameOf parse i]"] Cons.prems by simp
  qed
qed

lemma firstOccurrences_distinct: "distinct (firstOccurrences xs)"
  by (simp add: firstOccurrences_def)

lemma firstOccurrences_set: "set (firstOccurrences xs) = set xs"
  by (simp add: firstOccurrences_def)

lemma extractVnetNames_Inr:
  assumes "extractVnetNames env d = Inr names"
  shows "names = firstOccurrences (map (vnetNameOf (parseAzureResourceID env)) (virtual_network_ids d))"
proof -
  have "\<not> isl (extract_loop (parseAzureResourceID env) (virtual_network_ids d) [])"
    using assms by (simp add: extractVnetNames_def)
  then have "\<forall>i \<in> set (virtual_network_ids d). \<not> isl (parseAzureResourceID env i)"
    by (simp add: extract_loop_error)
  then have "extract_loop (parseAzureResourceID env) (virtual_network_ids d) []
             = Inr (firstOccurrences ([] @ map (vnetNameOf (parseAzureResourceID env)) (virtual_network_ids d)))"
    by (intro extract_loop_ok) simp_all
  with assms show ?thesis
    by (simp add: extractVnetNames_def)
qed

lemmas sample_defs = sample_env_def sample_plan_def sample_world_def vnet_a_def vnet_a2_def vnet_b_def
  parseSegments_def map_index_def


lemma sample_extract:
  "extractVnetNames sample_env (sample_plan [vnet_a, vnet_a2, vnet_b]) = Inr [''a'', ''b'']"
  by (simp add: extractVnetNames_def sample_env_def sample_plan_def vnet_a_def vnet_a2_def vnet_b_def
        parseSegments_def map_index_def)

lemma sample_extract_ab:
  "extractVnetNames sample_env (sample_plan [vnet_a, vnet_b]) = Inr [''a'', ''b'']"
  "extractVnetNames sample_env (sample_plan [vnet_b, vnet_a]) = Inr [''b'', ''a'']"
  by (simp_all add: extractVnetNames_def sample_defs)

text \<open>
  C5. \<open>extractVnetNames\<close> returns an error exactly when some ID of
  \<open>virtual_network_ids\<close> fails to parse as an Azure resource ID. When it returns names, no
  name occurs twice, the names are exactly the virtual-network names of the IDs, and they come in
  the order of their first occurrence.
\<close>

theorem extractVnetNames_names_once:
  "(isl (extractVnetNames env d)
      \<longleftrightarrow> (\<exists>vnetID \<in> set (virtual_network_ids d). isl (parseAzureResourceID env vnetID)))
   \<and> (\<forall>names. extractVnetNames env d = Inr names \<longrightarrow>
         distinct names
         \<and> set names = vnetNameOf (parseAzureResourceID env) ` set (virtual_network_ids d)
         \<and> names = firstOccurrences (map (vnetNameOf (parseAzureResourceID env)) (virtual_network_ids d)))"
proof (intro conjI allI impI)
  show "isl (extractVnetNames env d)
      \<longleftrightarrow> (\<exists>vnetID \<in> set (virtual_network_ids d). isl (parseAzureResourceID env vnetID))"
    by (simp add: extractVnetNames_def extract_loop_error)
next
  fix names assume ok: "extractVnetNames env d = Inr names"
  then show n: "names = firstOccurrences (map (vnetNameOf (parseAzureResourceID env)) (virtual_network_ids d))"
    by (rule extractVnetNames_Inr)
  show "distinct names" unfolding n by (rule firstOccurrences_distinct)
  show "set names = vnetNameOf (parseAzureResourceID env) ` set (virtual_network_ids d)"
    unfolding n by (simp add: firstOccurrences_set)
qed

text \<open>
  Three IDs, two of them of networks named \<open>a\<close>, give the names \<open>a\<close> and \<open>b\<close> once each;
  a list with an ID that does not parse gives an error.
\<close>

theorem extractVnetNames_names_once_witness:
  "extractVnetNames sample_env (sample_plan [vnet_a, vnet_a2, vnet_b]) = Inr [''a'', ''b'']
   \<and> distinct [''a'', ''b'']
   \<and> isl (parseAzureResourceID sample_env ''vnet'')
   \<and> isl (extractVnetNames sample_env (sample_plan [vnet_a, ''vnet'']))"
proof -
  have ok: "extractVnetNames sample_env (sample_plan [vnet_a, vnet_a2, vnet_b]) = Inr [''a'', ''b'']"
    by (simp add: extractVnetNames_def sample_defs)
  have bad: "isl (parseAzureResourceID sample_env ''vnet'')"
    by (simp add: sample_defs)
  then have ex: "\<exists>vnetID \<in> set (virtual_network_ids (sample_plan [vnet_a, ''vnet''])).
                   isl (parseAzureResourceID sample_env vnetID)"
    by (simp add: sample_plan_def)
  have "distinct [''a'', ''b'']"
    using extractVnetNames_names_once [of sample_env "sample_plan [vnet_a, vnet_a2, vnet_b]"] ok
    by blast
  moreover have "isl (extractVnetNames sample_env (sample_plan [vnet_a, ''vnet'']))"
    using extractVnetNames_names_once [of sample_env "sample_plan [vnet_a, ''vnet'']"] ex
    by blast
  ultimately show ?thesis using ok bad by simp
qed

subsection \<open>The locks of a mutation\<close>

lemma held_append: "held H (xs @ ys) = held (held H xs) ys"
  by (induction H xs rule: held.induct) simp_all

lemma acquired_append: "acquired (xs @ ys) = acquired xs @ acquired ys"
  by (induction xs rule: acquired.induct) simp_all

lemma released_append: "released (xs @ ys) = released xs @ released ys"
  by (induction xs rule: released.induct) simp_all

lemma fold_lock_eq:
  "fold (\<lambda>nm. azureRMLockByName nm t) names tr = tr @ map (\<lambda>n. Lock (t, n)) names"
  by (induction names arbitrary: tr) (simp_all add: azureRMLockByName_def)

lemma fold_unlock_eq:
  "fold (\<lambda>nm. azureRMUnlockByName nm t) names tr = tr @ map (\<lambda>n. Unlock (t, n)) names"
  by (induction names arbitrary: tr) (simp_all add: azureRMUnlockByName_def)

lemma lockMultiple_eq:
  "azureRMLockMultipleByName names t tr = tr @ map (\<lambda>n. Lock (t, n)) (sort names)"
  by (simp add: azureRMLockMultipleByName_def fold_lock_eq)

lemma unlockMultiple_eq:
  "azureRMUnlockMultipleByName names t tr = tr @ map (\<lambda>n. Unlock (t, n)) (sort names)"
  by (simp add: azureRMUnlockMultipleByName_def fold_unlock_eq)

lemma held_locks: "held H (map (\<lambda>n. Lock (t, n)) names) = H + mset (map (Pair t) names)"
  by (induction names arbitrary: H) simp_all

lemma held_unlocks: "held H (map (\<lambda>n. Unlock (t, n)) names) = H - mset (map (Pair t) names)"
  by (induction names arbitrary: H) simp_all

lemma acquired_locks: "acquired (map (\<lambda>n. Lock (t, n)) names) = map (Pair t) names"
  by (induction names) simp_all

lemma acquired_unlocks: "acquired (map (\<lambda>n. Unlock (t, n)) names) = []"
  by (induction names) simp_all

lemma released_locks: "released (map (\<lambda>n. Lock (t, n)) names) = []"
  by (induction names) simp_all

lemma released_unlocks: "released (map (\<lambda>n. Unlock (t, n)) names) = map (Pair t) names"
  by (induction names) simp_all

lemma read_lockTrace:
  "lockTrace (snd (snd (resourceArmDDoSProtectionPlanRead env d w))) = lockTrace w"
  by (simp add: resourceArmDDoSProtectionPlanRead_def Let_def
        split: sum.splits prod.splits option.splits)

lemma createUpdate_locked_lockTrace:
  "lockTrace (snd (snd (createUpdate_locked env d w nm g loc tgs))) = lockTrace w"
  by (simp add: createUpdate_locked_def Let_def read_lockTrace
        split: sum.splits prod.splits option.splits)

lemma delete_locked_lockTrace:
  "lockTrace (snd (snd (delete_locked env d w nm g))) = lockTrace w"
  by (simp add: delete_locked_def split: prod.splits option.splits)

lemma importCheck_lockTrace:
  "lockTrace (snd (createUpdate_importCheck env d w nm g)) = lockTrace w"
  by (simp add: createUpdate_importCheck_def Let_def split: prod.splits option.splits)

lemma held_lockBracket: "held H (lockBracket nm names) = H"
  by (simp add: lockBracket_def held_append held_locks held_unlocks)

lemma acquired_lockBracket:
  "acquired (lockBracket nm names)
     = (azureDDoSProtectionPlanResourceName, nm) # map (Pair virtualNetworkResourceName) (sort names)"
  by (simp add: lockBracket_def acquired_append acquired_locks acquired_unlocks)

lemma released_lockBracket:
  "released (lockBracket nm names)
     = map (Pair virtualNetworkResourceName) (sort names) @ [(azureDDoSProtectionPlanResourceName, nm)]"
  by (simp add: lockBracket_def released_append released_locks released_unlocks)

lemma createUpdate_trace:
  "lockTrace (snd (snd (resourceArmDDoSProtectionPlanCreateUpdate env d w)))
     = lockTrace w @
       (case (fst (createUpdate_importCheck env d w (name d) (resource_group_name d)),
              extractVnetNames env d) of
          (None, Inr names) \<Rightarrow> lockBracket (name d) names
        | _ \<Rightarrow> [])"
proof -
  obtain c w1 where ic: "createUpdate_importCheck env d w (name d) (resource_group_name d) = (c, w1)"
    by (cases "createUpdate_importCheck env d w (name d) (resource_group_name d)")
  have w1: "lockTrace w1 = lockTrace w"
    using importCheck_lockTrace [of env d w "name d" "resource_group_name d"] ic by simp
  show ?thesis
  proof (cases c)
    case (Some e)
    then show ?thesis using ic w1
      by (simp add: resourceArmDDoSProtectionPlanCreateUpdate_def)
  next
    case None
    show ?thesis
    proof (cases "extractVnetNames env d")
      case (Inl e)
      then show ?thesis using ic w1 None
        by (simp add: resourceArmDDoSProtectionPlanCreateUpdate_def)
    next
      case (Inr names)
      let ?w3 = "w1\<lparr>lockTrace := lockTrace w @ Lock (azureDDoSProtectionPlanResourceName, name d)
                   # map (\<lambda>n. Lock (virtualNetworkResourceName, n)) (sort names)\<rparr>"
      obtain x d' w4 where b: "createUpdate_locked env d ?w3 (name d) (resource_group_name d)
            (NormalizeLocation env (location d)) (tags d) = (x, d', w4)"
        by (metis prod_cases3)
      have "lockTrace w4 = lockTrace ?w3"
        using createUpdate_locked_lockTrace [of env d ?w3 "name d" "resource_group_name d"
            "NormalizeLocation env (location d)" "tags d"] b by simp
      then show ?thesis using ic w1 None Inr b
        by (simp add: resourceArmDDoSProtectionPlanCreateUpdate_def Let_def lockMultiple_eq
              unlockMultiple_eq azureRMLockByName_def azureRMUnlockByName_def lockBracket_def)
    qed
  qed
qed

lemma createUpdate_events:
  "lockTrace (snd (snd (resourceArmDDoSProtectionPlanCreateUpdate env d w)))
     = lockTrace w @
       (if createUpdate_reachesLocks env d w
        then lockBracket (name d) (projr (extractVnetNames env d)) else [])"
  unfolding createUpdate_trace createUpdate_reachesLocks_def
  by (cases "fst (createUpdate_importCheck env d w (name d) (resource_group_name d))";
      cases "extractVnetNames env d") simp_all

lemma delete_events:
  "lockTrace (snd (snd (resourceArmDDoSProtectionPlanDelete env d w)))
     = lockTrace w @
       (if delete_reachesLocks env d w
        then lockBracket (planNameOfId env d) (projr (extractVnetNames env d)) else [])"
proof (cases "parseAzureResourceID env (Id d)")
  case (Inl e)
  then show ?thesis
    by (simp add: resourceArmDDoSProtectionPlanDelete_def delete_reachesLocks_def)
next
  case (Inr rid)
  let ?g = "ResourceGroup rid" and ?n = "map_index (Path rid) ''ddosProtectionPlans''"
  obtain rd e r where g: "client_Get env (remote w) ?g ?n = ((rd, e), r)"
    by (metis prod.exhaust)
  show ?thesis
  proof (cases e)
    case (Some e')
    then show ?thesis using Inr g
      by (simp add: resourceArmDDoSProtectionPlanDelete_def delete_reachesLocks_def)
  next
    case None
    show ?thesis
    proof (cases "extractVnetNames env d")
      case (Inl e)
      then show ?thesis using Inr g None
        by (simp add: resourceArmDDoSProtectionPlanDelete_def delete_reachesLocks_def)
    next
      case names: (Inr names)
      let ?w3 = "w\<lparr>remote := r, lockTrace := lockTrace w @ Lock (azureDDoSProtectionPlanResourceName, ?n)
                   # map (\<lambda>n. Lock (virtualNetworkResourceName, n)) (sort names)\<rparr>"
      obtain x d' w4 where b: "delete_locked env d ?w3 ?n ?g = (x, d', w4)"
        by (metis prod_cases3)
      have "lockTrace w4 = lockTrace ?w3"
        using delete_locked_lockTrace [of env d ?w3 ?n ?g] b by simp
      then show ?thesis using Inr g None names b
        by (simp add: resourceArmDDoSProtectionPlanDelete_def delete_reachesLocks_def Let_def
              lockMultiple_eq unlockMultiple_eq azureRMLockByName_def azureRMUnlockByName_def
              lockBracket_def planNameOfId_def)
    qed
  qed
qed

lemma sample_reaches: "createUpdate_reachesLocks sample_env (sample_plan ids) sample_world
   \<longleftrightarrow> \<not> isl (extractVnetNames sample_env (sample_plan ids))"
  by (simp add: createUpdate_reachesLocks_def createUpdate_importCheck_def sample_env_def sample_plan_def)

lemma sample_found_parse: "parseAzureResourceID sample_env_found = parseSegments"
  by (simp add: sample_env_found_def sample_env_def)

lemma sample_plan_sel:
  "virtual_network_ids (sample_plan ids) = ids" "name (sample_plan ids) = ''p''"
  "Id (sample_plan ids) = ''/subscriptions/s/resourceGroups/g/ddosProtectionPlans/p''"
  by (simp_all add: sample_plan_def)

lemma sample_found_extract:
  "extractVnetNames sample_env_found (sample_plan [vnet_a, vnet_b]) = Inr [''a'', ''b'']"
  "extractVnetNames sample_env_found (sample_plan [vnet_a, vnet_a2, vnet_b]) = Inr [''a'', ''b'']"
  by (simp_all add: extractVnetNames_def sample_found_parse sample_plan_sel vnet_a_def vnet_a2_def
        vnet_b_def parseSegments_def map_index_def)

lemma sample_found_plan_name: "planNameOfId sample_env_found (sample_plan ids) = ''p''"
  by (simp add: planNameOfId_def sample_found_parse sample_plan_sel parseSegments_def map_index_def)

lemma sample_found_reaches:
  "delete_reachesLocks sample_env_found (sample_plan ids) sample_world
     \<longleftrightarrow> \<not> isl (extractVnetNames sample_env_found (sample_plan ids))"
proof -
  obtain rid where p: "parseAzureResourceID sample_env_found (Id (sample_plan ids)) = Inr rid"
    by (simp add: sample_found_parse sample_plan_sel parseSegments_def)
  have "snd (fst (client_Get sample_env_found (remote sample_world) (ResourceGroup rid)
                      (map_index (Path rid) ''ddosProtectionPlans''))) = None"
    by (simp add: sample_env_found_def)
  then show ?thesis using p by (simp add: delete_reachesLocks_def)
qed

text \<open>
  C1. Whatever \<open>resourceArmDDoSProtectionPlanCreateUpdate\<close> and
  \<open>resourceArmDDoSProtectionPlanDelete\<close> return (nil, an error, or a panic passing through),
  the lock events \<open>evs\<close> of the run leave the held locks as they were: every lock the
  function acquired (the plan's name under the DDoS resource name, each extracted
  virtual-network name under the virtual-network resource name) has been released when it
  returns, from whatever locks \<open>H\<close> were held before.
\<close>

theorem locks_released_on_every_return:
  "(\<exists>evs. lockTrace (snd (snd (resourceArmDDoSProtectionPlanCreateUpdate env d w))) = lockTrace w @ evs
          \<and> held H evs = H \<and> mset (acquired evs) = mset (released evs))
   \<and> (\<exists>evs. lockTrace (snd (snd (resourceArmDDoSProtectionPlanDelete env d w))) = lockTrace w @ evs
          \<and> held H evs = H \<and> mset (acquired evs) = mset (released evs))"
proof
  show "\<exists>evs. lockTrace (snd (snd (resourceArmDDoSProtectionPlanCreateUpdate env d w))) = lockTrace w @ evs
          \<and> held H evs = H \<and> mset (acquired evs) = mset (released evs)"
    unfolding createUpdate_events
    by (simp add: held_lockBracket acquired_lockBracket released_lockBracket)
  show "\<exists>evs. lockTrace (snd (snd (resourceArmDDoSProtectionPlanDelete env d w))) = lockTrace w @ evs
          \<and> held H evs = H \<and> mset (acquired evs) = mset (released evs)"
    unfolding delete_events
    by (simp add: held_lockBracket acquired_lockBracket released_lockBracket)
qed

text \<open>
  A create of a plan with two virtual networks, which fails when the plan is read back, and a
  delete that succeeds: three locks taken and all three released.
\<close>

theorem locks_released_on_every_return_witness:
  "newEvents sample_world
     (resourceArmDDoSProtectionPlanCreateUpdate sample_env (sample_plan [vnet_a, vnet_b]) sample_world)
     = [Lock (''azurerm_ddos_protection_plan'', ''p''), Lock (''azurerm_virtual_network'', ''a''),
        Lock (''azurerm_virtual_network'', ''b''), Unlock (''azurerm_virtual_network'', ''a''),
        Unlock (''azurerm_virtual_network'', ''b''), Unlock (''azurerm_ddos_protection_plan'', ''p'')]
   \<and> held {#} (newEvents sample_world
        (resourceArmDDoSProtectionPlanCreateUpdate sample_env (sample_plan [vnet_a, vnet_b]) sample_world))
     = {#}
   \<and> newEvents sample_world
     (resourceArmDDoSProtectionPlanDelete sample_env_found (sample_plan [vnet_a, vnet_b]) sample_world)
     = [Lock (''azurerm_ddos_protection_plan'', ''p''), Lock (''azurerm_virtual_network'', ''a''),
        Lock (''azurerm_virtual_network'', ''b''), Unlock (''azurerm_virtual_network'', ''a''),
        Unlock (''azurerm_virtual_network'', ''b''), Unlock (''azurerm_ddos_protection_plan'', ''p'')]
   \<and> held {#} (newEvents sample_world
        (resourceArmDDoSProtectionPlanDelete sample_env_found (sample_plan [vnet_a, vnet_b]) sample_world))
     = {#}"
proof -
  let ?d = "sample_plan [vnet_a, vnet_b]"
  let ?res = "resourceArmDDoSProtectionPlanCreateUpdate sample_env ?d sample_world"
  let ?del = "resourceArmDDoSProtectionPlanDelete sample_env_found ?d sample_world"
  let ?evs = "[Lock (''azurerm_ddos_protection_plan'', ''p''), Lock (''azurerm_virtual_network'', ''a''),
        Lock (''azurerm_virtual_network'', ''b''), Unlock (''azurerm_virtual_network'', ''a''),
        Unlock (''azurerm_virtual_network'', ''b''), Unlock (''azurerm_ddos_protection_plan'', ''p'')]"
  have tr: "lockTrace sample_world = []" by (simp add: sample_world_def)
  have t: "lockTrace (snd (snd ?res)) = ?evs"
    by (simp add: createUpdate_events sample_reaches sample_extract_ab lockBracket_def sample_plan_sel tr
          azureDDoSProtectionPlanResourceName_def virtualNetworkResourceName_def)
  have u: "lockTrace (snd (snd ?del)) = ?evs"
    by (simp add: delete_events sample_found_reaches sample_found_extract lockBracket_def
          sample_found_plan_name tr azureDDoSProtectionPlanResourceName_def virtualNetworkResourceName_def)
  have e: "newEvents sample_world ?res = lockTrace (snd (snd ?res))"
          "newEvents sample_world ?del = lockTrace (snd (snd ?del))"
    by (simp_all add: newEvents_def tr)
  obtain evs where "lockTrace (snd (snd ?res)) = lockTrace sample_world @ evs" "held {#} evs = {#}"
    using locks_released_on_every_return [of sample_env ?d sample_world "{#}"]
    by blast
  then have h: "held {#} (lockTrace (snd (snd ?res))) = {#}"
    by (simp add: tr)
  obtain evs' where "lockTrace (snd (snd ?del)) = lockTrace sample_world @ evs'" "held {#} evs' = {#}"
    using locks_released_on_every_return [of sample_env_found ?d sample_world "{#}"]
    by blast
  then have h': "held {#} (lockTrace (snd (snd ?del))) = {#}"
    by (simp add: tr)
  show ?thesis using t u h h' unfolding e by simp
qed










subsection \<open>Reading a plan that is gone\<close>

lemma flatten_Inr:
  "flattenArmVirtualNetworkIDs input
     = Inr (case input of None \<Rightarrow> [] | Some subs \<Rightarrow> List.map_filter SubResource.ID subs)"
  by (cases input) (simp_all add: flattenArmVirtualNetworkIDs_def deref_def flatten_loop_eq)

lemma read_setState_exit:
  "fst (read_setState env pl resourceGroup d)
     = (case Properties pl of
          None \<Rightarrow> Return None
        | Some props \<Rightarrow>
            (case setError env ''virtual_network_ids'' of
               None \<Rightarrow> Return None
             | Some e \<Rightarrow> Return (Some (ErrSettingVirtualNetworkIds e))))"
  by (simp add: read_setState_def Let_def flatten_Inr dSet_def split: option.splits)

lemma read_parse_error:
  "parseAzureResourceID env (Id d) = Inl e
   \<Longrightarrow> resourceArmDDoSProtectionPlanRead env d w = (Return (Some e), d, w)"
  by (simp add: resourceArmDDoSProtectionPlanRead_def)

lemma read_get_failed:
  assumes "parseAzureResourceID env (Id d) = Inr rid"
    and "client_Get env (remote w) (ResourceGroup rid) (map_index (Path rid) ''ddosProtectionPlans'')
           = ((pl, Some e), r)"
  shows "resourceArmDDoSProtectionPlanRead env d w
           = (if ResponseWasNotFound (DdosProtectionPlan.Response pl)
              then (Return None, d\<lparr>Id := []\<rparr>, w\<lparr>remote := r\<rparr>)
              else (Return (Some (ErrMakingReadRequest e)), d, w\<lparr>remote := r\<rparr>))"
  using assms by (simp add: resourceArmDDoSProtectionPlanRead_def Let_def)

lemma read_get_ok:
  assumes "parseAzureResourceID env (Id d) = Inr rid"
    and "client_Get env (remote w) (ResourceGroup rid) (map_index (Path rid) ''ddosProtectionPlans'')
           = ((pl, None), r)"
  shows "fst (resourceArmDDoSProtectionPlanRead env d w)
           = fst (read_setState env pl (ResourceGroup rid) d)"
  using assms by (simp add: resourceArmDDoSProtectionPlanRead_def Let_def split: prod.splits)

text \<open>
  C10, as stated, fails in its second half: the function returns a non-nil error although
  \<open>Get\<close> has not failed with anything but a not-found. With a remote service that answers
  every \<open>Get\<close> with a not-found, a state whose ID does not parse gives an error (and
  \<open>Get\<close> is not called); with a service that finds the plan, a \<open>d.Set\<close> of
  \<open>virtual_network_ids\<close> that fails gives an error.
\<close>

theorem read_error_without_get_failure_counterexample:
  "resourceArmDDoSProtectionPlanRead sample_env ((sample_plan [])\<lparr>Id := []\<rparr>) sample_world
     = (Return (Some (External ''Cannot parse Azure Id'')), (sample_plan [])\<lparr>Id := []\<rparr>, sample_world)
   \<and> snd (fst (client_Get sample_env_set_fails () ''g'' ''p'')) = None
   \<and> fst (resourceArmDDoSProtectionPlanRead sample_env_set_fails (sample_plan []) sample_world)
       = Return (Some (ErrSettingVirtualNetworkIds (External ''invalid list'')))"
proof -
  have a: "parseAzureResourceID sample_env (Id ((sample_plan [])\<lparr>Id := []\<rparr>))
             = Inl (External ''Cannot parse Azure Id'')"
    by (simp add: sample_env_def parseSegments_def)
  obtain rid where p: "parseAzureResourceID sample_env_set_fails (Id (sample_plan [])) = Inr rid"
    by (simp add: sample_env_set_fails_def sample_env_found_def sample_env_def sample_plan_sel
          parseSegments_def)
  obtain pl where g: "client_Get sample_env_set_fails (remote sample_world) (ResourceGroup rid)
             (map_index (Path rid) ''ddosProtectionPlans'') = ((pl, None), ())"
      and pr: "Properties pl \<noteq> None"
    by (simp add: sample_env_set_fails_def sample_env_found_def)
  have se: "setError sample_env_set_fails ''virtual_network_ids'' = Some (External ''invalid list'')"
    by (simp add: sample_env_set_fails_def)
  have "fst (resourceArmDDoSProtectionPlanRead sample_env_set_fails (sample_plan []) sample_world)
       = Return (Some (ErrSettingVirtualNetworkIds (External ''invalid list'')))"
    using pr by (auto simp: read_get_ok [OF p g] read_setState_exit se)
  moreover have "snd (fst (client_Get sample_env_set_fails () ''g'' ''p'')) = None"
    by (simp add: sample_env_set_fails_def sample_env_found_def)
  ultimately show ?thesis using read_parse_error [OF a] by simp
qed

text \<open>
  C10, amended. When \<open>Get\<close> fails and its response is a not-found,
  \<open>resourceArmDDoSProtectionPlanRead\<close> sets the ID of the state to the empty string and
  returns nil. It returns a non-nil error in exactly three cases: the ID of the state does
  not parse, \<open>Get\<close> fails with a response that is not a not-found, or \<open>Get\<close> succeeds
  with properties and the setting of \<open>virtual_network_ids\<close> fails.
\<close>

theorem read_not_found_and_error_cases:
  "(\<forall>rid pl e r.
       parseAzureResourceID env (Id d) = Inr rid
       \<and> client_Get env (remote w) (ResourceGroup rid) (map_index (Path rid) ''ddosProtectionPlans'')
           = ((pl, Some e), r)
       \<and> ResponseWasNotFound (DdosProtectionPlan.Response pl)
     \<longrightarrow> resourceArmDDoSProtectionPlanRead env d w
           = (Return None, d\<lparr>Id := []\<rparr>, w\<lparr>remote := r\<rparr>))
   \<and> ((\<exists>e. fst (resourceArmDDoSProtectionPlanRead env d w) = Return (Some e))
        \<longleftrightarrow>
          isl (parseAzureResourceID env (Id d))
          \<or> (\<exists>rid pl e r.
                parseAzureResourceID env (Id d) = Inr rid
                \<and> client_Get env (remote w) (ResourceGroup rid)
                      (map_index (Path rid) ''ddosProtectionPlans'') = ((pl, Some e), r)
                \<and> \<not> ResponseWasNotFound (DdosProtectionPlan.Response pl))
          \<or> (\<exists>rid pl r props.
                parseAzureResourceID env (Id d) = Inr rid
                \<and> client_Get env (remote w) (ResourceGroup rid)
                      (map_index (Path rid) ''ddosProtectionPlans'') = ((pl, None), r)
                \<and> Properties pl = Some props
                \<and> setError env ''virtual_network_ids'' \<noteq> None))"
proof (intro conjI allI impI)
  fix rid pl e r
  assume "parseAzureResourceID env (Id d) = Inr rid
       \<and> client_Get env (remote w) (ResourceGroup rid) (map_index (Path rid) ''ddosProtectionPlans'')
           = ((pl, Some e), r)
       \<and> ResponseWasNotFound (DdosProtectionPlan.Response pl)"
  then show "resourceArmDDoSProtectionPlanRead env d w
           = (Return None, d\<lparr>Id := []\<rparr>, w\<lparr>remote := r\<rparr>)"
    by (simp add: read_get_failed)
next
  show "(\<exists>e. fst (resourceArmDDoSProtectionPlanRead env d w) = Return (Some e))
        \<longleftrightarrow>
          isl (parseAzureResourceID env (Id d))
          \<or> (\<exists>rid pl e r.
                parseAzureResourceID env (Id d) = Inr rid
                \<and> client_Get env (remote w) (ResourceGroup rid)
                      (map_index (Path rid) ''ddosProtectionPlans'') = ((pl, Some e), r)
                \<and> \<not> ResponseWasNotFound (DdosProtectionPlan.Response pl))
          \<or> (\<exists>rid pl r props.
                parseAzureResourceID env (Id d) = Inr rid
                \<and> client_Get env (remote w) (ResourceGroup rid)
                      (map_index (Path rid) ''ddosProtectionPlans'') = ((pl, None), r)
                \<and> Properties pl = Some props
                \<and> setError env ''virtual_network_ids'' \<noteq> None)"
  proof (cases "parseAzureResourceID env (Id d)")
    case (Inl e)
    then show ?thesis by (simp add: read_parse_error)
  next
    case (Inr rid)
    obtain pl e r where g: "client_Get env (remote w) (ResourceGroup rid)
        (map_index (Path rid) ''ddosProtectionPlans'') = ((pl, e), r)"
      by (metis prod.exhaust)
    show ?thesis
    proof (cases e)
      case (Some e')
      then show ?thesis using Inr g by (simp add: read_get_failed)
    next
      case None
      then show ?thesis using Inr g
        by (auto simp: read_get_ok read_setState_exit split: option.splits)
    qed
  qed
qed

text \<open>
  A \<open>Get\<close> answered with a 404: the ID is cleared and nil returned. A \<open>Get\<close> answered
  with a 500: an error.
\<close>

theorem read_not_found_and_error_cases_witness:
  "resourceArmDDoSProtectionPlanRead sample_env (sample_plan []) sample_world
     = (Return None, (sample_plan [])\<lparr>Id := []\<rparr>, sample_world)
   \<and> (\<exists>e. fst (resourceArmDDoSProtectionPlanRead sample_env_500 (sample_plan []) sample_world)
             = Return (Some e))"
proof -
  obtain rid where p: "parseAzureResourceID sample_env (Id (sample_plan [])) = Inr rid"
    by (simp add: sample_defs)
  then have p5: "parseAzureResourceID sample_env_500 (Id (sample_plan [])) = Inr rid"
    by (simp add: sample_env_500_def)
  let ?nf = "\<lparr>DdosProtectionPlan.Response = Some 404, ID = None, Name = None, Location = None,
            Properties = None, Tags = Map.empty\<rparr>"
  let ?se = "\<lparr>DdosProtectionPlan.Response = Some 500, ID = None, Name = None, Location = None,
            Properties = None, Tags = Map.empty\<rparr>"
  have g: "client_Get sample_env (remote sample_world) (ResourceGroup rid)
             (map_index (Path rid) ''ddosProtectionPlans'')
           = ((?nf, Some (External ''not found'')), ())"
    by (simp add: sample_env_def)
  have nf: "ResponseWasNotFound (DdosProtectionPlan.Response ?nf)"
    by (simp add: ResponseWasNotFound_def)
  have g5: "client_Get sample_env_500 (remote sample_world) (ResourceGroup rid)
             (map_index (Path rid) ''ddosProtectionPlans'')
           = ((?se, Some (External ''server error'')), ())"
    by (simp add: sample_env_500_def)
  have se: "\<not> ResponseWasNotFound (DdosProtectionPlan.Response ?se)"
    by (simp add: ResponseWasNotFound_def)
  have w: "sample_world\<lparr>remote := ()\<rparr> = sample_world" by simp
  have "resourceArmDDoSProtectionPlanRead sample_env (sample_plan []) sample_world
     = (Return None, (sample_plan [])\<lparr>Id := []\<rparr>, sample_world\<lparr>remote := ()\<rparr>)"
    using read_not_found_and_error_cases [of sample_env "sample_plan []" sample_world] p g nf
    by blast
  moreover have "\<exists>e. fst (resourceArmDDoSProtectionPlanRead sample_env_500 (sample_plan []) sample_world)
             = Return (Some e)"
    using read_not_found_and_error_cases [of sample_env_500 "sample_plan []" sample_world] p5 g5 se
    by blast
  ultimately show ?thesis using w by simp
qed

subsection \<open>The storage key cache\<close>

lemma getKey_hit:
  "storageKeyCache st (cacheIndex g a) = Some key
   \<Longrightarrow> getKeyForStorageAccount LK st g a = ((key, True, None), st)"
  by (simp add: getKeyForStorageAccount_def)

lemma getKey_miss:
  "storageKeyCache st (cacheIndex g a) = None
   \<Longrightarrow> getKeyForStorageAccount LK st g a = getKey_fetch LK st g a"
  by (simp add: getKeyForStorageAccount_def)



lemma getKey_fetch_cases:
  assumes "getKey_fetch LK st g a = ((key, ex, e), st')"
  shows "(storageKeyCache st' = storageKeyCache st \<and> (e \<noteq> None \<or> \<not> ex))
       \<or> (e = None \<and> ex \<and> storageKeyCache st' = (storageKeyCache st)(cacheIndex g a \<mapsto> key)
           \<and> (\<exists>res r ks. LK (storageService st) g a = ((res, None), r) \<and> Keys res = Some ks
                  \<and> ks \<noteq> [] \<and> Value (ks ! 0) = Some key))"
  using assms
  by (auto simp: getKey_fetch_def Let_def split: prod.splits option.splits if_splits)

lemma getKey_fetch_not_found:
  assumes "ResponseWasNotFound (AccountListKeysResult.Response (fst (fst (LK (storageService st) g a))))"
  shows "fst (getKey_fetch LK st g a) = ([], False, None)
       \<and> storageKeyCache (snd (getKey_fetch LK st g a)) = storageKeyCache st"
proof -
  obtain res e r where l: "LK (storageService st) g a = ((res, e), r)"
    by (metis prod.exhaust)
  then have "ResponseWasNotFound (AccountListKeysResult.Response res)" using assms by simp
  then show ?thesis using l by (simp add: getKey_fetch_def Let_def)
qed

lemma getKey_cache_le:
  "storageKeyCache st \<subseteq>\<^sub>m storageKeyCache (snd (getKeyForStorageAccount LK st g a))"
proof (cases "storageKeyCache st (cacheIndex g a)")
  case (Some k)
  then show ?thesis by (simp add: getKey_hit)
next
  case None
  obtain key ex e st' where f: "getKey_fetch LK st g a = ((key, ex, e), st')"
    by (metis prod.exhaust)
  have "storageKeyCache st \<subseteq>\<^sub>m storageKeyCache st'"
    using getKey_fetch_cases [OF f] None by (auto simp: map_le_def)
  then show ?thesis using None f by (simp add: getKey_miss)
qed

lemma getKeys_cache_le:
  "storageKeyCache st \<subseteq>\<^sub>m storageKeyCache (snd (getKeys LK st calls))"
proof (induction calls arbitrary: st)
  case Nil
  show ?case by simp
next
  case (Cons c calls)
  obtain g a where c: "c = (g, a)" by (cases c)
  obtain res st1 where s: "getKeyForStorageAccount LK st g a = (res, st1)" by (metis prod.exhaust)
  obtain ress st2 where t: "getKeys LK st1 calls = (ress, st2)" by (metis prod.exhaust)
  have "storageKeyCache st \<subseteq>\<^sub>m storageKeyCache st1"
    using getKey_cache_le [of st LK g a] s by simp
  moreover have "storageKeyCache st1 \<subseteq>\<^sub>m storageKeyCache st2"
    using Cons.IH [of st1] t by simp
  ultimately show ?case using c s t by (auto intro: map_le_trans)
qed

lemma sample_first_call:
  "getKeyForStorageAccount sample_ListKeys sample_state ''rg'' ''acct''
     = ((''key'', True, None), sample_cached)"
  by (simp add: getKeyForStorageAccount_def getKey_fetch_def cacheIndex_def sample_ListKeys_def
        sample_state_def sample_cached_def ResponseWasNotFound_def)

lemma sample_gone_call:
  "getKeyForStorageAccount sample_ListKeys sample_cached ''rg'' ''gone''
     = (([], False, None),
        sample_cached\<lparr>storageService := 2,
          listKeysCalls := [(''rg'', ''acct''), (''rg'', ''gone'')]\<rparr>)"
  by (simp add: getKeyForStorageAccount_def getKey_fetch_def cacheIndex_def sample_ListKeys_def
        sample_cached_def ResponseWasNotFound_def)





text \<open>
  C9. The cache changes only on full success: a call that returns an error, or
  \<open>accountExists = false\<close>, leaves the cache as it was; when the cache has changed, the
  call returned no error and the first key \<open>ListKeys\<close> has just given, and that key is
  what was stored. When the cache misses and \<open>ListKeys\<close> reports not-found, the result is
  the empty key, \<open>false\<close> and no error, with the cache unchanged.
\<close>

theorem getKeyForStorageAccount_caches_only_on_success:
  assumes "getKeyForStorageAccount LK st g a = ((key, accountExists, e), st')"
  shows "((e \<noteq> None \<or> \<not> accountExists) \<longrightarrow> storageKeyCache st' = storageKeyCache st)
       \<and> (storageKeyCache st' \<noteq> storageKeyCache st \<longrightarrow>
             e = None \<and> accountExists
             \<and> storageKeyCache st' = (storageKeyCache st)(cacheIndex g a \<mapsto> key)
             \<and> (\<exists>res r ks. LK (storageService st) g a = ((res, None), r) \<and> Keys res = Some ks
                    \<and> ks \<noteq> [] \<and> Value (ks ! 0) = Some key))
       \<and> (storageKeyCache st (cacheIndex g a) = None
            \<and> ResponseWasNotFound (AccountListKeysResult.Response (fst (fst (LK (storageService st) g a))))
          \<longrightarrow> key = [] \<and> \<not> accountExists \<and> e = None \<and> storageKeyCache st' = storageKeyCache st)"
proof (cases "storageKeyCache st (cacheIndex g a)")
  case (Some k)
  then show ?thesis using assms by (simp add: getKey_hit)
next
  case None
  then have f: "getKey_fetch LK st g a = ((key, accountExists, e), st')"
    using assms by (simp add: getKey_miss)
  show ?thesis
    using getKey_fetch_cases [OF f] getKey_fetch_not_found [of LK st g a] f by auto
qed

text \<open>
  An account the service does not know, and one it knows.
\<close>

theorem getKeyForStorageAccount_caches_only_on_success_witness:
  "fst (getKeyForStorageAccount sample_ListKeys sample_cached ''rg'' ''gone'') = ([], False, None)
   \<and> storageKeyCache (snd (getKeyForStorageAccount sample_ListKeys sample_cached ''rg'' ''gone''))
       = storageKeyCache sample_cached
   \<and> storageKeyCache (snd (getKeyForStorageAccount sample_ListKeys sample_state ''rg'' ''acct''))
       = (storageKeyCache sample_state)(cacheIndex ''rg'' ''acct'' \<mapsto> ''key'')"
proof -
  have c1: "storageKeyCache (sample_cached\<lparr>storageService := 2,
              listKeysCalls := [(''rg'', ''acct''), (''rg'', ''gone'')]\<rparr>) = storageKeyCache sample_cached"
    using getKeyForStorageAccount_caches_only_on_success [OF sample_gone_call] by blast
  have ne: "storageKeyCache sample_cached \<noteq> storageKeyCache sample_state"
  proof
    assume "storageKeyCache sample_cached = storageKeyCache sample_state"
    then have "storageKeyCache sample_cached ''rg/acct'' = storageKeyCache sample_state ''rg/acct''"
      by simp
    then show False by (simp add: sample_cached_def sample_state_def)
  qed
  have c2: "storageKeyCache sample_cached = (storageKeyCache sample_state)(cacheIndex ''rg'' ''acct'' \<mapsto> ''key'')"
    using getKeyForStorageAccount_caches_only_on_success [OF sample_first_call] ne by blast
  show ?thesis using c1 c2 by (simp add: sample_gone_call sample_first_call)
qed

text \<open>
  C4. Over any sequence of calls the cache only grows: every entry stays, with its key,
  and the set of cached indices grows; so once an account is mapped to a key, a call for it
  after any further calls returns that key.
\<close>

theorem storageKeyCache_never_shrinks:
  assumes "getKeys LK st calls = (ress, st')"
  shows "storageKeyCache st \<subseteq>\<^sub>m storageKeyCache st'
       \<and> dom (storageKeyCache st) \<subseteq> dom (storageKeyCache st')
       \<and> (\<forall>key. storageKeyCache st (cacheIndex g a) = Some key \<longrightarrow>
             storageKeyCache st' (cacheIndex g a) = Some key
             \<and> getKeyForStorageAccount LK st' g a = ((key, True, None), st'))"
proof -
  have le: "storageKeyCache st \<subseteq>\<^sub>m storageKeyCache st'"
    using getKeys_cache_le [of st LK calls] assms by simp
  have keep: "storageKeyCache st' (cacheIndex g a) = Some key"
    if "storageKeyCache st (cacheIndex g a) = Some key" for key
    using le that by (metis domI map_le_def)
  show ?thesis using le keep by (auto simp: map_le_implies_dom_le getKey_hit dest: map_le_implies_dom_le)
qed

text \<open>
  After calls for two other accounts, the key cached for \<open>acct\<close> is still returned,
  although the service would now give another.
\<close>

theorem storageKeyCache_never_shrinks_witness:
  "storageKeyCache sample_cached (cacheIndex ''rg'' ''acct'') = Some ''key''
   \<and> fst (getKeyForStorageAccount sample_ListKeys
        (snd (getKeys sample_ListKeys sample_cached [(''rg'', ''gone''), (''rg'', ''other'')]))
        ''rg'' ''acct'') = (''key'', True, None)
   \<and> dom (storageKeyCache sample_cached)
       \<subseteq> dom (storageKeyCache
                (snd (getKeys sample_ListKeys sample_cached [(''rg'', ''gone''), (''rg'', ''other'')])))"
proof -
  let ?calls = "[(''rg'', ''gone''), (''rg'', ''other'')]"
  obtain ress st' where r: "getKeys sample_ListKeys sample_cached ?calls = (ress, st')"
    by (metis prod.exhaust)
  have hit: "storageKeyCache sample_cached (cacheIndex ''rg'' ''acct'') = Some ''key''"
    by (simp add: sample_cached_def cacheIndex_def)
  show ?thesis
    using storageKeyCache_never_shrinks [OF r, of "''rg''" "''acct''"] hit r by simp
qed

subsection \<open>Configuring the Pureport provider\<close>

text \<open>
  C6. \<open>providerConfigure\<close> does not read its configuration: whatever the settings
  \<open>access_key\<close>, \<open>secret_key\<close>, \<open>profile\<close>, \<open>token\<close> and \<open>max_retries\<close> are, it
  returns the session of a default configuration with the fixed endpoint, so no two
  configurations give different sessions.
\<close>

theorem providerConfigure_ignores_settings:
  "providerConfigure sdk d = providerConfigure sdk d2
   \<and> providerConfigure sdk d
       = (NewSession sdk (WithEndPoint sdk (NewConfiguration sdk []) ''https://dev1-api.pureportdev.com''), None)"
  by (simp add: providerConfigure_def)

subsection \<open>A failed creation of a connection\<close>

lemma create_send_failed:
  assumes "AddConnection env r networkId body = ((resp, e), r1)"
    and "e \<noteq> None \<or> (\<exists>rs. resp = Some rs \<and> StatusCode rs \<ge> 300)"
  shows "create_send env readFn body networkId d r = (Return None, d\<lparr>ConnectionData.Id := []\<rparr>, r1)"
  using assms by (cases e) (auto simp: create_send_def deref_def)

lemma sample_firstLink:
  "firstLink (ConnectionData.location sample_connection) = Inr \<lparr>Link.Id = ''network-1'', Href = ''/networks/network-1''\<rparr>"
  "firstLink (ConnectionData.network sample_connection) = Inr \<lparr>Link.Id = ''network-1'', Href = ''/networks/network-1''\<rparr>"
  by (simp_all add: firstLink_def sample_connection_def sample_link_def)

text \<open>
  C8. When \<open>AddConnection\<close> returns an error, or a response with a status code of 300
  or more, \<open>resourceAzureConnectionCreate\<close> and \<open>resourceDummyConnectionCreate\<close> set the
  ID of the state to the empty string and return nil.
\<close>

theorem failed_create_returns_nil:
  assumes "firstLink (ConnectionData.location d) = Inr loc"
    and "firstLink (ConnectionData.network d) = Inr net"
    and "e \<noteq> None \<or> (\<exists>rs. resp = Some rs \<and> StatusCode rs \<ge> 300)"
  shows "(AddConnection env r (Link.Id net) (Azure (azureConnectionBody env d loc net)) = ((resp, e), r1)
            \<longrightarrow> resourceAzureConnectionCreate env d r = (Return None, d\<lparr>ConnectionData.Id := []\<rparr>, r1))
       \<and> (AddConnection env r (Link.Id net) (Dummy (dummyConnectionBody env d loc net)) = ((resp, e), r1)
            \<longrightarrow> resourceDummyConnectionCreate env d r = (Return None, d\<lparr>ConnectionData.Id := []\<rparr>, r1))"
  using assms
  by (simp add: resourceAzureConnectionCreate_def resourceDummyConnectionCreate_def create_send_failed)

text \<open>
  A call that fails without a response, and a response with status 503.
\<close>

theorem failed_create_returns_nil_witness:
  "resourceAzureConnectionCreate sample_pureport_env sample_connection 0
     = (Return None, sample_connection\<lparr>ConnectionData.Id := []\<rparr>, 0)
   \<and> resourceDummyConnectionCreate sample_pureport_env sample_connection 503
     = (Return None, sample_connection\<lparr>ConnectionData.Id := []\<rparr>, 503)"
proof -
  let ?l = "\<lparr>Link.Id = ''network-1'', Href = ''/networks/network-1''\<rparr>"
  have a: "AddConnection sample_pureport_env 0 (Link.Id ?l)
             (Azure (azureConnectionBody sample_pureport_env sample_connection ?l ?l))
           = ((None, Some (External ''connection refused'')), 0)"
    by (simp add: sample_pureport_env_def)
  have b: "AddConnection sample_pureport_env 503 (Link.Id ?l)
             (Dummy (dummyConnectionBody sample_pureport_env sample_connection ?l ?l))
           = ((Some \<lparr>StatusCode = 503, Header = Map.empty\<rparr>, None), 503)"
    by (simp add: sample_pureport_env_def)
  have c: "Some (External ''connection refused'') \<noteq> None
           \<or> (\<exists>rs. None = Some rs \<and> StatusCode rs \<ge> 300)" by simp
  have d: "None \<noteq> None
           \<or> (\<exists>rs. Some \<lparr>StatusCode = 503, Header = Map.empty\<rparr> = Some rs \<and> StatusCode rs \<ge> 300)" by simp
  show ?thesis
    using failed_create_returns_nil [OF sample_firstLink c, of sample_pureport_env 0 0] a
      failed_create_returns_nil [OF sample_firstLink d, of sample_pureport_env 503 503] b
    by blast
qed

end
